theory Spec2Isabelle
  imports Complex_Main "HOL-Library.Sublist"
begin

section \<open>Python text\<close>

text \<open>
  A Python \<open>str\<close> is a sequence of Unicode code points, so a string is a list of natural
  numbers; \<open>py\<close> reads an ASCII literal. Non-ASCII glyphs of the source are written by
  their code points.
\<close>

type_synonym pystr = "nat list"

definition py :: "string \<Rightarrow> pystr" where
  "py s = map of_char s"

text \<open>
  An exception is represented by its text, \<open>str(e)\<close>. Only exceptions derived from
  \<open>Exception\<close> are modelled: every handler of the source is \<open>except Exception\<close>.
\<close>

datatype exn = Exception (message: pystr)

text \<open>
  A value returned by the model capability: text, or an object of another type (named by
  its type), which has no attribute \<open>replace\<close>.
\<close>

datatype pyobj = PyStr pystr | PyOther pystr

subsection \<open>Case mapping\<close>

text \<open>
  \<open>str.title\<close> reads three tables of the interpreter's Unicode database: whether a code
  point is cased, its full title-case mapping and its full lower-case mapping (which
  for U+03A3 depends on the position in the string). On the ASCII block the tables are
  the same in every version and are written out; beyond it they are the parameter
  \<open>ucd\<close>.
\<close>

record ucd =
  ext_cased :: "nat \<Rightarrow> bool"
  ext_title :: "nat \<Rightarrow> pystr"
  ext_lower :: "pystr \<Rightarrow> nat \<Rightarrow> pystr"

definition ascii_isupper :: "nat \<Rightarrow> bool" where
  "ascii_isupper c = (65 \<le> c \<and> c \<le> 90)"

definition ascii_islower :: "nat \<Rightarrow> bool" where
  "ascii_islower c = (97 \<le> c \<and> c \<le> 122)"

definition ascii_toupper :: "nat \<Rightarrow> nat" where
  "ascii_toupper c = (if ascii_islower c then c - 32 else c)"

definition ascii_tolower :: "nat \<Rightarrow> nat" where
  "ascii_tolower c = (if ascii_isupper c then c + 32 else c)"

definition is_cased :: "ucd \<Rightarrow> nat \<Rightarrow> bool" where
  "is_cased u c = (if c < 128 then ascii_isupper c \<or> ascii_islower c else ext_cased u c)"

definition to_title_full :: "ucd \<Rightarrow> nat \<Rightarrow> pystr" where
  "to_title_full u c = (if c < 128 then [ascii_toupper c] else ext_title u c)"

definition lower_ucs4 :: "ucd \<Rightarrow> pystr \<Rightarrow> nat \<Rightarrow> nat \<Rightarrow> pystr" where
  "lower_ucs4 u dat i c = (if c < 128 then [ascii_tolower c] else ext_lower u dat i)"

text \<open>
  The loop of \<open>str.title\<close>: a character that follows a cased character is lower-cased,
  any other character is title-cased. \<open>dat\<close> is the whole string and \<open>i\<close> the index of
  the character at hand.
\<close>

fun do_title :: "ucd \<Rightarrow> pystr \<Rightarrow> nat \<Rightarrow> bool \<Rightarrow> pystr \<Rightarrow> pystr" where
  "do_title u dat i previous_is_cased [] = []"
| "do_title u dat i previous_is_cased (c # cs) =
     (if previous_is_cased then lower_ucs4 u dat i c else to_title_full u c)
       @ do_title u dat (Suc i) (is_cased u c) cs"

definition py_title :: "ucd \<Rightarrow> pystr \<Rightarrow> pystr" where
  "py_title u s = do_title u s 0 False s"

subsection \<open>strip and replace\<close>

text \<open>\<open>s.strip(chars)\<close> drops, at both ends, the characters that occur in \<open>chars\<close>.\<close>

definition py_strip :: "pystr \<Rightarrow> pystr \<Rightarrow> pystr" where
  "py_strip chars s =
     rev (dropWhile (\<lambda>c. c \<in> set chars) (rev (dropWhile (\<lambda>c. c \<in> set chars) s)))"

text \<open>
  \<open>s.replace(old, new)\<close> replaces the occurrences of \<open>old\<close> from left to right, without
  overlap; an empty \<open>old\<close> matches before every character and at the end.
\<close>

function py_replace :: "pystr \<Rightarrow> pystr \<Rightarrow> pystr \<Rightarrow> pystr" where
  "py_replace old new [] = (if old = [] then new else [])"
| "py_replace old new (c # cs) =
     (if old = [] then new @ c # py_replace old new cs
      else if prefix old (c # cs) then new @ py_replace old new (drop (length old) (c # cs))
      else c # py_replace old new cs)"
  by pat_completeness auto
termination
  by (relation "measure (\<lambda>(old, new, s). length s)") auto

section \<open>Utility functions\<close>

text \<open>
  \<open>extract_answer(response)\<close>: remove the end-of-utterance tag, strip periods and
  spaces, title-case. On a value that is not text the first method call raises
  \<open>AttributeError\<close>.
\<close>

definition extract_answer :: "ucd \<Rightarrow> pyobj \<Rightarrow> exn + pystr" where
  "extract_answer u response =
     (case response of
        PyOther tn \<Rightarrow>
          Inl (Exception (py [CHR 0x27] @ tn @ py [CHR 0x27]
                 @ py '' object has no attribute '' @ py [CHR 0x27] @ py ''replace''
                 @ py [CHR 0x27]))
      | PyStr r \<Rightarrow>
          Inr (py_title u (py_strip (py ''. '') (py_replace (py ''<end_of_utterance>'') [] r))))"

section \<open>Ad structures and catalogs\<close>

record ad =
  title :: pystr
  description :: pystr
  price :: pystr
  rating :: rat
  image_placeholder :: pystr

text \<open>
  The constructor of class \<open>Ad\<close>; its parameter \<open>image_size\<close> is never read. A rating is
  a finite float, represented by the rational number it denotes: \<open>int(rating)\<close>, the
  subtraction of that integer and the comparison with \<open>0.5\<close> are exact on floats.
\<close>

definition Ad :: "pystr \<Rightarrow> pystr \<Rightarrow> pystr \<Rightarrow> rat \<Rightarrow> ad" where
  \<open>Ad t d p r =
     \<lparr>title = t, description = d, price = p, rating = r,
      image_placeholder = py ''https://blog.udemy.com/wp-content/uploads/2014/05/bigstock-Vector-Promotion-Concept-Fla-57726575.jpg''\<rparr>\<close>

text \<open>\<open>int(x)\<close> on a float truncates towards zero.\<close>

definition py_int :: "rat \<Rightarrow> int" where
  "py_int x = (if 0 \<le> x then \<lfloor>x\<rfloor> else - \<lfloor>- x\<rfloor>)"

text \<open>\<open>s * n\<close> repeats a string; a count below one gives the empty string.\<close>

definition py_repeat :: "pystr \<Rightarrow> int \<Rightarrow> pystr" where
  "py_repeat s n = concat (replicate (nat n) s)"

text \<open>The filled star is U+2605 and the half is U+00BD.\<close>

definition format_stars :: "rat \<Rightarrow> pystr" where
  "format_stars r =
     (let full_stars = py_int r;
          has_half = (r - of_int full_stars \<ge> 1 / 2);
          stars = py_repeat [0x2605] full_stars
      in if has_half then stars @ [0xBD] else stars)"

definition ads_age :: "(pystr \<times> ad list) list" where
  \<open>ads_age =
     [(py ''20-30'',
        [Ad (py ''Ultra Boost X Sneakers'')
            (py ''Limited edition sneakers with cutting-edge comfort technology'')
            (py ''$199.99'') (48 / 10),
         Ad (py ''Smart Fitness Watch Pro'')
            (py ''Track your workouts, sleep, and lifestyle with AI-powered insights'')
            (py ''$299.99'') (47 / 10),
         Ad (py ''Urban Streetwear Collection'')
            (py ''Express yourself with our latest street-inspired fashion drops'')
            (py ''$149.99'') (46 / 10)]),
      (py ''30-40'',
        [Ad (py ''Premium Coffee Maker Plus'')
            (py ''Barista-quality coffee at home with smart temperature control'')
            (py ''$399.99'') (49 / 10),
         Ad (py ''Professional Series Smartwatch'')
            (py ''Elegant timepiece with advanced productivity features'')
            (py ''$449.99'') (48 / 10),
         Ad (py ''Home Automation Starter Kit'')
            (py ''Transform your space with intelligent lighting and security'')
            (py ''$299.99'') (47 / 10)]),
      (py ''40-50'',
        [Ad (py ''Artisanal Wine Selection'')
            (py ''Curated collection of premium wines from renowned vineyards'')
            (py ''$599.99'') (49 / 10),
         Ad (py ''Luxury Watch Collection'')
            (py ''Timeless elegance meets modern craftsmanship'')
            (py ''$1999.99'') (48 / 10),
         Ad (py ''Executive Wardrobe Essentials'')
            (py ''Premium suits and accessories for the distinguished professional'')
            (py ''$899.99'') (47 / 10)]),
      (py ''50+'',
        [Ad (py ''Wellness Supplement Bundle'')
            (py ''Comprehensive nutrition support for active aging'')
            (py ''$129.99'') (48 / 10),
         Ad (py ''Comfort-Tech Footwear'')
            (py ''Advanced ergonomic design for all-day comfort'')
            (py ''$159.99'') (47 / 10),
         Ad (py ''Luxury Travel Experiences'')
            (py ''Curated adventures with premium accommodations and service'')
            (py ''$2999.99'') (49 / 10)])]\<close>

definition ads_gender :: "(pystr \<times> ad list) list" where
  \<open>ads_gender =
     [(py ''Male'',
        [Ad (py ''Premium Grooming Kit'')
            (py ''Complete care collection with precision trimmer and luxurious skincare'')
            (py ''$199.99'') (47 / 10),
         Ad (py ''Modern Menswear Essentials'')
            (py ''Versatile pieces for the contemporary gentleman'')
            (py ''$299.99'') (46 / 10),
         Ad (py ''Sports Performance Collection'')
            (py ''Advanced gear for your active lifestyle'')
            (py ''$249.99'') (48 / 10)]),
      (py ''Female'',
        [Ad (py ''Luxury Beauty Collection'')
            (py ''Premium skincare and makeup for radiant beauty'')
            (py ''$299.99'') (49 / 10),
         Ad (py ''Designer Handbag Selection'')
            (py ''Exclusive bags from world-renowned fashion houses'')
            (py ''$999.99'') (48 / 10),
         Ad (py ''Jewelry & Accessories Edit'')
            (py ''Timeless pieces to elevate every outfit'')
            (py ''$499.99'') (47 / 10)])]\<close>

definition ads_mood :: "(pystr \<times> ad list) list" where
  \<open>ads_mood =
     [(py ''Happy'',
        [Ad (py ''Party Planning Bundle'')
            (py ''Everything you need for your next celebration'')
            (py ''$199.99'') (47 / 10),
         Ad (py ''Adventure Gear Set'')
            (py ''Premium outdoor equipment for your next expedition'')
            (py ''$399.99'') (48 / 10),
         Ad (py ''Entertainment Package Plus'')
            (py ''Stream, game, and enjoy with our premium entertainment system'')
            (py ''$599.99'') (46 / 10)]),
      (py ''Neutral'',
        [Ad (py ''Home Essentials Collection'')
            (py ''Quality basics for everyday living'')
            (py ''$249.99'') (45 / 10),
         Ad (py ''Smart Kitchen Appliances'')
            (py ''Efficient cooking with innovative technology'')
            (py ''$699.99'') (47 / 10),
         Ad (py ''Casual Dining Experience'')
            (py ''Discover local restaurants with exclusive offers'')
            (py ''$99.99'') (46 / 10)]),
      (py ''Sad'',
        [Ad (py ''Wellness Retreat Package'')
            (py ''Rejuvenating spa experiences for mind and body'')
            (py ''$399.99'') (49 / 10),
         Ad (py ''Comfort Food Delivery'')
            (py ''Gourmet comfort meals delivered to your door'')
            (py ''$79.99'') (47 / 10),
         Ad (py ''Self-Care Collection'')
            (py ''Premium products for relaxation and wellness'')
            (py ''$199.99'') (48 / 10)])]\<close>

definition ads_style :: "(pystr \<times> ad list) list" where
  \<open>ads_style =
     [(py ''Sporty'',
        [Ad (py ''Pro Athletic Wear'')
            (py ''High-performance gear for serious athletes'')
            (py ''$199.99'') (48 / 10),
         Ad (py ''Premium Running Shoes'')
            (py ''Advanced cushioning and support for every run'')
            (py ''$179.99'') (47 / 10),
         Ad (py ''Sports Tech Bundle'')
            (py ''Track and improve your performance with smart devices'')
            (py ''$299.99'') (46 / 10)]),
      (py ''Casual'',
        [Ad (py ''Essential Comfort Collection'')
            (py ''Effortless style for everyday wear'')
            (py ''$149.99'') (45 / 10),
         Ad (py ''Lifestyle Sneaker Edit'')
            (py ''Trendy and comfortable footwear for any occasion'')
            (py ''$129.99'') (46 / 10),
         Ad (py ''Casual Basics Bundle'')
            (py ''Build your perfect everyday wardrobe'')
            (py ''$199.99'') (47 / 10)]),
      (py ''Formal'',
        [Ad (py ''Luxury Suit Collection'')
            (py ''Bespoke tailoring with premium fabrics'')
            (py ''$999.99'') (49 / 10),
         Ad (py ''Executive Accessories'')
            (py ''Fine watches and leather goods for professionals'')
            (py ''$499.99'') (48 / 10),
         Ad (py ''Premium Business Wear'')
            (py ''Sophisticated attire for the modern executive'')
            (py ''$799.99'') (47 / 10)]),
      (py ''Vintage'',
        [Ad (py ''Classic Collection Pieces'')
            (py ''Timeless fashion with a modern twist'')
            (py ''$299.99'') (47 / 10),
         Ad (py ''Retro-Inspired Accessories'')
            (py ''Vintage-style pieces for unique charm'')
            (py ''$199.99'') (46 / 10),
         Ad (py ''Heritage Fashion Edit'')
            (py ''Contemporary takes on classic designs'')
            (py ''$399.99'') (48 / 10)])]\<close>

section \<open>Dictionaries and random choice\<close>

text \<open>\<open>d.get(k, default)\<close>; \<open>d.get(k)\<close> itself is the map application \<open>d k\<close>.\<close>

definition dict_get :: "('k \<rightharpoonup> 'v) \<Rightarrow> 'k \<Rightarrow> 'v \<Rightarrow> 'v" where
  "dict_get d k dflt = (case d k of None \<Rightarrow> dflt | Some v \<Rightarrow> v)"

text \<open>The same with a key that may be Python's \<open>None\<close>, which is a key of no catalog.\<close>

definition dict_get_opt :: "('k \<rightharpoonup> 'v) \<Rightarrow> 'k option \<Rightarrow> 'v \<Rightarrow> 'v" where
  "dict_get_opt d key dflt = (case key of None \<Rightarrow> dflt | Some k \<Rightarrow> dict_get d k dflt)"

text \<open>
  \<open>random.choice(seq)\<close> raises \<open>IndexError\<close> on an empty sequence and otherwise returns
  \<open>seq[_randbelow(len(seq))]\<close>. The generator's raw output is the argument \<open>r\<close>, reduced
  into the range of indices.
\<close>

definition random_choice :: "nat \<Rightarrow> 'a list \<Rightarrow> exn + 'a" where
  "random_choice r seq =
     (if seq = [] then Inl (Exception (py ''Cannot choose from an empty sequence''))
      else Inr (seq ! (r mod length seq)))"

section \<open>External collaborators and observable events\<close>

text \<open>
  What the handler calls and does not define: the Unicode tables, the image library
  (\<open>Image.open(stream).convert("RGB")\<close>), the chat template and the model's \<open>generate\<close>,
  the random generator (its raw output at the \<open>n\<close>-th draw of a request) and the
  formatting of a float in an f-string. A failing call returns \<open>Inl\<close> of the exception.
\<close>

record ('f, 'i, 'p) collaborators =
  tables :: ucd
  image_open :: "'f \<Rightarrow> exn + 'i"
  apply_chat_template :: "pystr \<Rightarrow> exn + 'p"
  generate :: "'p \<Rightarrow> 'i \<Rightarrow> exn + pyobj"
  random_raw :: "nat \<Rightarrow> nat"
  float_repr :: "rat \<Rightarrow> pystr"

text \<open>
  The calls to collaborators are recorded in the order they are made; logging is not
  modelled.
\<close>

datatype event = ImageOpen | ChatTemplate pystr | Generate pystr | Choice pystr

section \<open>MLX VLM segmentation function\<close>

text \<open>
  \<open>ask_mlx_vlm(image, question)\<close>: the whole body is inside \<open>try ... except Exception\<close>,
  whose handler returns the error text as if it were an answer.
\<close>

definition ask_mlx_vlm ::
  "('f, 'i, 'p) collaborators \<Rightarrow> 'i \<Rightarrow> pystr \<Rightarrow> event list \<times> (exn + pyobj)" where
  "ask_mlx_vlm env img question =
     (case apply_chat_template env question of
        Inl e \<Rightarrow>
          ([ChatTemplate question],
           Inr (PyStr (py ''Error processing question: '' @ message e)))
      | Inr formatted_prompt \<Rightarrow>
          (case generate env formatted_prompt img of
             Inl e \<Rightarrow>
               ([ChatTemplate question, Generate question],
                Inr (PyStr (py ''Error processing question: '' @ message e)))
           | Inr output \<Rightarrow> ([ChatTemplate question, Generate question], Inr output)))"

section \<open>Segmentation and ad selection\<close>

text \<open>The four questions, in the order of the dict \<open>questions\<close>.\<close>

definition question_age :: pystr where
  \<open>question_age =
     py ''Based on the person'' @ [0x27]
     @ py ''s facial features, what is the age range? Answer with one of: ''
     @ [0x27] @ py ''20-30'' @ [0x27] @ py '', '' @ [0x27] @ py ''30-40'' @ [0x27] @ py '', ''
     @ [0x27] @ py ''40-50'' @ [0x27] @ py '', '' @ [0x27] @ py ''50+'' @ [0x27] @ py ''.''\<close>

definition question_gender :: pystr where
  \<open>question_gender =
     py ''Based on the person'' @ [0x27]
     @ py ''s appearance, what is their likely gender? Answer with ''
     @ [0x27] @ py ''Male'' @ [0x27] @ py '' or '' @ [0x27] @ py ''Female'' @ [0x27] @ py ''.''\<close>

definition question_mood :: pystr where
  \<open>question_mood =
     py ''How would you describe the person'' @ [0x27]
     @ py ''s mood based on their expression? Answer with ''
     @ [0x27] @ py ''Happy'' @ [0x27] @ py '', '' @ [0x27] @ py ''Neutral'' @ [0x27] @ py '', or ''
     @ [0x27] @ py ''Sad'' @ [0x27] @ py ''.''\<close>

definition question_style :: pystr where
  \<open>question_style =
     py ''Based on the person'' @ [0x27]
     @ py ''s style, what fashion category do they belong to? Answer with ''
     @ [0x27] @ py ''Sporty'' @ [0x27] @ py '', '' @ [0x27] @ py ''Casual'' @ [0x27] @ py '', ''
     @ [0x27] @ py ''Formal'' @ [0x27] @ py '', or '' @ [0x27] @ py ''Vintage'' @ [0x27] @ py ''.''\<close>

definition questions :: "(pystr \<times> pystr) list" where
  "questions =
     [(py ''age'', question_age), (py ''gender'', question_gender),
      (py ''mood'', question_mood), (py ''style'', question_style)]"

text \<open>
  The body of the loop over \<open>questions.items()\<close>: ask, normalise, and on any exception
  of either call record \<open>"N/A"\<close>.
\<close>

definition segment_label ::
  "('f, 'i, 'p) collaborators \<Rightarrow> 'i \<Rightarrow> pystr \<Rightarrow> event list \<times> pystr" where
  "segment_label env img question =
     (case ask_mlx_vlm env img question of
        (ev, Inl e) \<Rightarrow> (ev, py ''N/A'')
      | (ev, Inr response) \<Rightarrow>
          (case extract_answer (tables env) response of
             Inl e \<Rightarrow> (ev, py ''N/A'')
           | Inr answer \<Rightarrow> (ev, answer)))"

fun segment ::
  "('f, 'i, 'p) collaborators \<Rightarrow> 'i \<Rightarrow> (pystr \<times> pystr) list
     \<Rightarrow> event list \<times> (pystr \<rightharpoonup> pystr) \<Rightarrow> event list \<times> (pystr \<rightharpoonup> pystr)" where
  "segment env img [] st = st"
| "segment env img ((key, question) # rest) (tr, segmentation) =
     (case segment_label env img question of
        (ev, label) \<Rightarrow> segment env img rest (tr @ ev, segmentation(key \<mapsto> label)))"

text \<open>
  One entry of the dict \<open>selected_ads\<close>:
  \<open>random.choice(catalog.get(segmentation.get(key), [fallback]))\<close>.
\<close>

definition choose_ad :: "nat \<Rightarrow> (pystr \<times> ad list) list \<Rightarrow> pystr option \<Rightarrow> ad \<Rightarrow> exn + ad" where
  "choose_ad r catalog label fallback =
     random_choice r (dict_get_opt (map_of catalog) label [fallback])"

text \<open>
  The dict literal has four fixed keys and is read back by those keys only: a record.
  Its entries are evaluated in order, and an exception of one ends the evaluation.
\<close>

record selection =
  sel_age :: ad
  sel_gender :: ad
  sel_mood :: ad
  sel_style :: ad

definition selected_ads ::
  "(nat \<Rightarrow> nat) \<Rightarrow> (pystr \<rightharpoonup> pystr) \<Rightarrow> event list \<times> (exn + selection)" where
  \<open>selected_ads raw segmentation =
     (case choose_ad (raw 0) ads_age (segmentation (py ''age''))
             (Ad (py ''Default Age Ad'') (py ''Personalized recommendations for you'')
                (py ''$0.00'') 5) of
        Inl e \<Rightarrow> ([Choice (py ''age'')], Inl e)
      | Inr a \<Rightarrow>
     (case choose_ad (raw 1) ads_gender (segmentation (py ''gender''))
             (Ad (py ''Default Gender Ad'') (py ''Curated selections for you'')
                (py ''$0.00'') 5) of
        Inl e \<Rightarrow> ([Choice (py ''age''), Choice (py ''gender'')], Inl e)
      | Inr g \<Rightarrow>
     (case choose_ad (raw 2) ads_mood (segmentation (py ''mood''))
             (Ad (py ''Default Mood Ad'') (py ''Special picks for your mood'')
                (py ''$0.00'') 5) of
        Inl e \<Rightarrow> ([Choice (py ''age''), Choice (py ''gender''), Choice (py ''mood'')], Inl e)
      | Inr m \<Rightarrow>
     (case choose_ad (raw 3) ads_style (segmentation (py ''style''))
             (Ad (py ''Default Style Ad'') (py ''Trending items for your style'')
                (py ''$0.00'') 5) of
        Inl e \<Rightarrow>
          ([Choice (py ''age''), Choice (py ''gender''), Choice (py ''mood''),
            Choice (py ''style'')], Inl e)
      | Inr s \<Rightarrow>
          ([Choice (py ''age''), Choice (py ''gender''), Choice (py ''mood''),
            Choice (py ''style'')],
           Inr \<lparr>sel_age = a, sel_gender = g, sel_mood = m, sel_style = s\<rparr>)))))\<close>

text \<open>
  The ad card, as the function \<open>format_ad_html\<close> local to the handler renders it (the
  module-level function of the same name is shadowed and never called).
\<close>

definition format_ad_html :: "(rat \<Rightarrow> pystr) \<Rightarrow> ad \<Rightarrow> pystr" where
  \<open>format_ad_html repr ad =
     py ''\<newline>''
     @ py ''        <div class="ad-card">\<newline>''
     @ py ''            <img src="'' @ image_placeholder ad @ py ''" alt="'' @ title ad @ py ''" class="ad-image">\<newline>''
     @ py ''            <div class="ad-content">\<newline>''
     @ py ''                <h3 class="ad-title">'' @ title ad @ py ''</h3>\<newline>''
     @ py ''                <p class="ad-description">'' @ description ad @ py ''</p>\<newline>''
     @ py ''                <div class="ad-footer">\<newline>''
     @ py ''                    <span class="ad-price">'' @ price ad @ py ''</span>\<newline>''
     @ py ''                    <span class="ad-rating">'' @ format_stars (rating ad) @ py '' ('' @ repr (rating ad) @ py '')</span>\<newline>''
     @ py ''                </div>\<newline>''
     @ py ''            </div>\<newline>''
     @ py ''        </div>\<newline>''
     @ py ''        ''\<close>


text \<open>The page fragment; the four glyphs of the segmentation items are beyond ASCII.\<close>

definition html_output :: "(rat \<Rightarrow> pystr) \<Rightarrow> (pystr \<rightharpoonup> pystr) \<Rightarrow> selection \<Rightarrow> pystr" where
  \<open>html_output repr segmentation ads =
     py ''\<newline>''
     @ py ''    <style>\<newline>''
     @ py ''        .results-container {\<newline>''
     @ py ''            font-family: Arial, sans-serif;\<newline>''
     @ py ''            max-width: 1200px;\<newline>''
     @ py ''            margin: 0 auto;\<newline>''
     @ py ''            padding: 20px;\<newline>''
     @ py ''        }\<newline>''
     @ py ''        \<newline>''
     @ py ''        .segmentation-card {\<newline>''
     @ py ''            background: white;\<newline>''
     @ py ''            border-radius: 8px;\<newline>''
     @ py ''            padding: 15px;\<newline>''
     @ py ''            margin-bottom: 20px;\<newline>''
     @ py ''            box-shadow: 0 2px 4px rgba(0,0,0,0.1);\<newline>''
     @ py ''        }\<newline>''
     @ py ''        \<newline>''
     @ py ''        .segmentation-grid {\<newline>''
     @ py ''            display: grid;\<newline>''
     @ py ''            grid-template-columns: repeat(4, 1fr);\<newline>''
     @ py ''            gap: 15px;\<newline>''
     @ py ''        }\<newline>''
     @ py ''        \<newline>''
     @ py ''        .segmentation-item {\<newline>''
     @ py ''            display: flex;\<newline>''
     @ py ''            align-items: center;\<newline>''
     @ py ''            gap: 8px;\<newline>''
     @ py ''        }\<newline>''
     @ py ''        \<newline>''
     @ py ''        .ads-grid {\<newline>''
     @ py ''            display: grid;\<newline>''
     @ py ''            grid-template-columns: repeat(4, 1fr);\<newline>''
     @ py ''            gap: 20px;\<newline>''
     @ py ''        }\<newline>''
     @ py ''        \<newline>''
     @ py ''        .ad-card {\<newline>''
     @ py ''            background: white;\<newline>''
     @ py ''            border-radius: 8px;\<newline>''
     @ py ''            overflow: hidden;\<newline>''
     @ py ''            box-shadow: 0 2px 4px rgba(0,0,0,0.1);\<newline>''
     @ py ''            transition: transform 0.2s;\<newline>''
     @ py ''        }\<newline>''
     @ py ''        \<newline>''
     @ py ''        .ad-card:hover {\<newline>''
     @ py ''            transform: translateY(-5px);\<newline>''
     @ py ''        }\<newline>''
     @ py ''        \<newline>''
     @ py ''        .ad-image {\<newline>''
     @ py ''            width: 100%;\<newline>''
     @ py ''            height: 200px;\<newline>''
     @ py ''            object-fit: cover;\<newline>''
     @ py ''        }\<newline>''
     @ py ''        \<newline>''
     @ py ''        .ad-content {\<newline>''
     @ py ''            padding: 15px;\<newline>''
     @ py ''        }\<newline>''
     @ py ''        \<newline>''
     @ py ''        .ad-title {\<newline>''
     @ py ''            margin: 0 0 10px 0;\<newline>''
     @ py ''            font-size: 16px;\<newline>''
     @ py ''            font-weight: bold;\<newline>''
     @ py ''            color: #333;\<newline>''
     @ py ''        }\<newline>''
     @ py ''        \<newline>''
     @ py ''        .ad-description {\<newline>''
     @ py ''            font-size: 14px;\<newline>''
     @ py ''            color: #666;\<newline>''
     @ py ''            margin-bottom: 15px;\<newline>''
     @ py ''            line-height: 1.4;\<newline>''
     @ py ''        }\<newline>''
     @ py ''        \<newline>''
     @ py ''        .ad-footer {\<newline>''
     @ py ''            display: flex;\<newline>''
     @ py ''            justify-content: space-between;\<newline>''
     @ py ''            align-items: center;\<newline>''
     @ py ''        }\<newline>''
     @ py ''        \<newline>''
     @ py ''        .ad-price {\<newline>''
     @ py ''            color: #2ecc71;\<newline>''
     @ py ''            font-weight: bold;\<newline>''
     @ py ''            font-size: 18px;\<newline>''
     @ py ''        }\<newline>''
     @ py ''        \<newline>''
     @ py ''        .ad-rating {\<newline>''
     @ py ''            color: #f1c40f;\<newline>''
     @ py ''            font-size: 14px;\<newline>''
     @ py ''        }\<newline>''
     @ py ''        \<newline>''
     @ py ''        @media (max-width: 1024px) {\<newline>''
     @ py ''            .ads-grid {\<newline>''
     @ py ''                grid-template-columns: repeat(2, 1fr);\<newline>''
     @ py ''            }\<newline>''
     @ py ''        }\<newline>''
     @ py ''        \<newline>''
     @ py ''        @media (max-width: 640px) {\<newline>''
     @ py ''            .ads-grid {\<newline>''
     @ py ''                grid-template-columns: 1fr;\<newline>''
     @ py ''            }\<newline>''
     @ py ''            .segmentation-grid {\<newline>''
     @ py ''                grid-template-columns: repeat(2, 1fr);\<newline>''
     @ py ''            }\<newline>''
     @ py ''        }\<newline>''
     @ py ''    </style>\<newline>''
     @ py ''\<newline>''
     @ py ''    <div class="results-container">\<newline>''
     @ py ''        <div class="segmentation-card">\<newline>''
     @ py ''            <div class="segmentation-grid">\<newline>''
     @ py ''                <div class="segmentation-item">\<newline>''
     @ py ''                    <span>'' @ [0x1F3AF] @ py ''</span>\<newline>''
     @ py ''                    <span>Age: '' @ dict_get segmentation (py ''age'') (py ''N/A'') @ py ''</span>\<newline>''
     @ py ''                </div>\<newline>''
     @ py ''                <div class="segmentation-item">\<newline>''
     @ py ''                    <span>'' @ [0x1F464] @ py ''</span>\<newline>''
     @ py ''                    <span>Gender: '' @ dict_get segmentation (py ''gender'') (py ''N/A'') @ py ''</span>\<newline>''
     @ py ''                </div>\<newline>''
     @ py ''                <div class="segmentation-item">\<newline>''
     @ py ''                    <span>'' @ [0x1F60A] @ py ''</span>\<newline>''
     @ py ''                    <span>Mood: '' @ dict_get segmentation (py ''mood'') (py ''N/A'') @ py ''</span>\<newline>''
     @ py ''                </div>\<newline>''
     @ py ''                <div class="segmentation-item">\<newline>''
     @ py ''                    <span>'' @ [0x1F454] @ py ''</span>\<newline>''
     @ py ''                    <span>Style: '' @ dict_get segmentation (py ''style'') (py ''N/A'') @ py ''</span>\<newline>''
     @ py ''                </div>\<newline>''
     @ py ''            </div>\<newline>''
     @ py ''        </div>\<newline>''
     @ py ''        \<newline>''
     @ py ''        <div class="ads-grid">\<newline>''
     @ py ''            '' @ format_ad_html repr (sel_age ads) @ py ''\<newline>''
     @ py ''            '' @ format_ad_html repr (sel_gender ads) @ py ''\<newline>''
     @ py ''            '' @ format_ad_html repr (sel_mood ads) @ py ''\<newline>''
     @ py ''            '' @ format_ad_html repr (sel_style ads) @ py ''\<newline>''
     @ py ''        </div>\<newline>''
     @ py ''    </div>\<newline>''
     @ py ''    ''\<close>

text \<open>
  The handler of \<open>POST /process_image\<close>. A response is a status and the object given to
  \<open>jsonify\<close>; \<open>Inl\<close> is an exception that leaves the handler.
\<close>

datatype body = ErrorBody pystr | HtmlBody pystr

record 'f request =
  files :: "pystr \<rightharpoonup> 'f"

definition process_image ::
  "('f, 'i, 'p) collaborators \<Rightarrow> 'f request \<Rightarrow> event list \<times> (exn + nat \<times> body)" where
  "process_image env req =
     (case files req (py ''image'') of
        None \<Rightarrow> ([], Inr (400, ErrorBody (py ''No image uploaded'')))
      | Some image_file \<Rightarrow>
          (case image_open env image_file of
             Inl e \<Rightarrow> ([ImageOpen], Inr (500, ErrorBody (message e)))
           | Inr img \<Rightarrow>
               (case segment env img questions ([ImageOpen], Map.empty) of
                  (tr, segmentation) \<Rightarrow>
                    (case selected_ads (random_raw env) segmentation of
                       (ev, Inl e) \<Rightarrow> (tr @ ev, Inl e)
                     | (ev, Inr ads) \<Rightarrow>
                         (tr @ ev,
                          Inr (200, HtmlBody (html_output (float_repr env) segmentation ads)))))))"

section \<open>Notions used in the statements\<close>

text \<open>
  Title-casing on ASCII text alone, where no table is needed: \<open>p\<close> tells whether the
  previous character is cased.
\<close>

definition ascii_cased :: "nat \<Rightarrow> bool" where
  "ascii_cased c = (ascii_isupper c \<or> ascii_islower c)"

fun ascii_title :: "bool \<Rightarrow> pystr \<Rightarrow> pystr" where
  "ascii_title p [] = []"
| "ascii_title p (c # cs) =
     (if p then ascii_tolower c else ascii_toupper c) # ascii_title (ascii_cased c) cs"

text \<open>A string that neither starts nor ends with one of the characters \<open>chars\<close>.\<close>

definition trimmed :: "pystr \<Rightarrow> pystr \<Rightarrow> bool" where
  "trimmed chars s = (s = [] \<or> (hd s \<notin> set chars \<and> last s \<notin> set chars))"

text \<open>A label that is missing (\<open>None\<close>) or is not a key of the catalog.\<close>

definition unrecognized :: "(pystr \<times> ad list) list \<Rightarrow> pystr option \<Rightarrow> bool" where
  "unrecognized catalog label =
     (case label of None \<Rightarrow> True | Some l \<Rightarrow> l \<notin> set (map fst catalog))"

text \<open>
  An excerpt of the Unicode tables beyond ASCII, as CPython has them: U+01F0 (small j
  with caron) is cased and its title-case mapping is the two code points U+004A U+030C;
  U+030C (combining caron) is uncased and maps to itself. The excerpt is read at these
  code points only.
\<close>

definition ucd_excerpt :: ucd where
  "ucd_excerpt =
     \<lparr>ext_cased = (\<lambda>c. c = 0x1F0),
      ext_title = (\<lambda>c. if c = 0x1F0 then [0x4A, 0x30C] else [c]),
      ext_lower = (\<lambda>dat i. [dat ! i])\<rparr>"

text \<open>
  Test doubles of the collaborators: a model that raises for the mood question and
  answers the three others, and an environment around an image opener and a model
  whose chat template is the identity.
\<close>

definition gen_mood_fails :: "pystr \<Rightarrow> nat \<Rightarrow> exn + pyobj" where
  "gen_mood_fails prompt img =
     (if prompt = question_mood then Inl (Exception (py ''boom''))
      else if prompt = question_age then Inr (PyStr (py ''30-40''))
      else if prompt = question_gender then Inr (PyStr (py ''Male''))
      else Inr (PyStr (py ''Casual'')))"

definition stub_env ::
  "(nat \<Rightarrow> exn + nat) \<Rightarrow> (pystr \<Rightarrow> nat \<Rightarrow> exn + pyobj) \<Rightarrow> (nat, nat, pystr) collaborators" where
  "stub_env opener gen =
     \<lparr>tables = ucd_excerpt, image_open = opener, apply_chat_template = (\<lambda>q. Inr q),
      generate = gen, random_raw = (\<lambda>n. n), float_repr = (\<lambda>r. py ''5.0'')\<rparr>"

section \<open>Case mapping and stripping on ASCII text\<close>

lemmas ascii_defs = ascii_cased_def ascii_isupper_def ascii_islower_def ascii_toupper_def ascii_tolower_def

lemmas eval_defs = extract_answer_def py_def py_strip_def py_title_def to_title_full_def
      lower_ucs4_def is_cased_def ascii_isupper_def ascii_islower_def ascii_toupper_def
      ascii_tolower_def

lemma py_eq_iff: "py a = py b \<longleftrightarrow> a = b"
  unfolding py_def by (simp add: inj_map_eq_map inj_on_def)

lemma ascii_cased_toupper [simp]: "ascii_cased (ascii_toupper c) = ascii_cased c"
  unfolding ascii_defs by arith

lemma ascii_cased_tolower [simp]: "ascii_cased (ascii_tolower c) = ascii_cased c"
  unfolding ascii_defs by arith

lemma ascii_toupper_idem [simp]: "ascii_toupper (ascii_toupper c) = ascii_toupper c"
  unfolding ascii_defs by arith

lemma ascii_tolower_idem [simp]: "ascii_tolower (ascii_tolower c) = ascii_tolower c"
  unfolding ascii_defs by arith

lemma ascii_toupper_below: "c < 128 \<Longrightarrow> ascii_toupper c < 128"
  unfolding ascii_defs by arith

lemma ascii_tolower_below: "c < 128 \<Longrightarrow> ascii_tolower c < 128"
  unfolding ascii_defs by arith

lemma ascii_toupper_strip [simp]: "(ascii_toupper c = 46 \<or> ascii_toupper c = 32) \<longleftrightarrow> (c = 46 \<or> c = 32)"
  unfolding ascii_defs by auto

lemma ascii_tolower_strip [simp]: "(ascii_tolower c = 46 \<or> ascii_tolower c = 32) \<longleftrightarrow> (c = 46 \<or> c = 32)"
  unfolding ascii_defs by auto

lemma do_title_ascii:
  "\<forall>c\<in>set cs. c < 128 \<Longrightarrow> do_title u dat i p cs = ascii_title p cs"
  by (induction cs arbitrary: i p)
     (simp_all add: to_title_full_def lower_ucs4_def is_cased_def ascii_cased_def)

lemma py_title_ascii: "\<forall>c\<in>set s. c < 128 \<Longrightarrow> py_title u s = ascii_title False s"
  by (simp add: py_title_def do_title_ascii)

lemma ascii_title_below: "\<forall>c\<in>set s. c < 128 \<Longrightarrow> \<forall>c\<in>set (ascii_title p s). c < 128"
  by (induction s arbitrary: p) (simp_all add: ascii_toupper_below ascii_tolower_below)

lemma ascii_title_idem: "ascii_title p (ascii_title p s) = ascii_title p s"
  by (induction s arbitrary: p) simp_all

lemma ascii_title_Nil: "ascii_title p s = [] \<longleftrightarrow> s = []"
  by (cases s) simp_all

lemma ascii_title_hd:
  "s \<noteq> [] \<Longrightarrow> hd (ascii_title p s) \<in> {46, 32} \<longleftrightarrow> hd s \<in> {46, 32}"
  by (cases s) simp_all

lemma ascii_title_last:
  "s \<noteq> [] \<Longrightarrow> last (ascii_title p s) \<in> {46, 32} \<longleftrightarrow> last s \<in> {46, 32}"
  by (induction s arbitrary: p) (simp_all add: ascii_title_Nil)

lemma strip_chars: "set (py ''. '') = {46, 32}"
  by (simp add: py_def)

lemma dropWhile_hd: "xs \<noteq> [] \<Longrightarrow> \<not> P (hd xs) \<Longrightarrow> dropWhile P xs = xs"
  by (cases xs) auto

lemma py_strip_trimmed: "trimmed chars s \<Longrightarrow> py_strip chars s = s"
  unfolding trimmed_def py_strip_def
  by (cases "s = []") (simp_all add: dropWhile_hd hd_rev)

lemma last_dropWhile_nonempty: "dropWhile P xs \<noteq> [] \<Longrightarrow> last (dropWhile P xs) = last xs"
  by (induction xs) (auto split: if_splits)

lemma strip_ends:
  assumes "dropWhile P (rev (dropWhile P s)) \<noteq> []"
  shows "\<not> P (hd (dropWhile P (rev (dropWhile P s))))"
    and "\<not> P (last (dropWhile P (rev (dropWhile P s))))"
proof -
  show "\<not> P (hd (dropWhile P (rev (dropWhile P s))))"
    using assms by (rule hd_dropWhile)
  have a: "dropWhile P s \<noteq> []"
  proof
    assume "dropWhile P s = []"
    then have "dropWhile P (rev (dropWhile P s)) = []" by (simp only: rev.simps dropWhile.simps)
    with assms show False by (rule notE)
  qed
  then have ha: "\<not> P (hd (dropWhile P s))" by (rule hd_dropWhile)
  have "last (dropWhile P (rev (dropWhile P s))) = last (rev (dropWhile P s))"
    using assms by (rule last_dropWhile_nonempty)
  also have "\<dots> = hd (dropWhile P s)" using a by (simp only: last_rev)
  finally have "last (dropWhile P (rev (dropWhile P s))) = hd (dropWhile P s)" .
  with ha show "\<not> P (last (dropWhile P (rev (dropWhile P s))))" by (rule_tac ssubst)
qed

lemma trimmed_py_strip: "trimmed chars (py_strip chars s)"
proof (cases "dropWhile (\<lambda>c. c \<in> set chars) (rev (dropWhile (\<lambda>c. c \<in> set chars) s)) = []")
  case True
  then show ?thesis by (simp only: trimmed_def py_strip_def rev.simps simp_thms)
next
  case False
  from strip_ends [OF False] False show ?thesis
    by (simp only: trimmed_def py_strip_def hd_rev last_rev rev_is_Nil_conv simp_thms)
qed

lemma ascii_title_trimmed:
  "trimmed (py ''. '') s \<Longrightarrow> trimmed (py ''. '') (ascii_title p s)"
  unfolding trimmed_def strip_chars using ascii_title_hd ascii_title_last ascii_title_Nil by blast

text \<open>The end-of-utterance tag cannot occur in title-cased ASCII text: its \<open><\<close> is followed by a small letter.\<close>

lemma marker_unfold: "py ''<end_of_utterance>'' = 60 # 101 # py ''nd_of_utterance>''"
  by (simp add: py_def)

lemma ascii_toupper_60: "ascii_toupper c = 60 \<longleftrightarrow> c = 60"
  unfolding ascii_defs by arith

lemma ascii_tolower_60: "ascii_tolower c = 60 \<longleftrightarrow> c = 60"
  unfolding ascii_defs by arith

lemma ascii_toupper_101: "ascii_toupper c \<noteq> 101"
  unfolding ascii_defs by arith

lemma ascii_title_no_marker: "\<not> prefix (60 # 101 # xs) (ascii_title p s)"
proof (cases s)
  case Nil
  then show ?thesis by simp
next
  case (Cons c cs)
  show ?thesis
  proof (cases cs)
    case Nil
    with Cons show ?thesis by simp
  next
    case (Cons d ds)
    with \<open>s = c # cs\<close> show ?thesis
      by (auto simp: ascii_toupper_60 ascii_tolower_60 ascii_toupper_101 ascii_cased_def
          ascii_isupper_def ascii_islower_def)
  qed
qed

lemma py_replace_skip:
  "old \<noteq> [] \<Longrightarrow> \<not> prefix old (c # cs) \<Longrightarrow> py_replace old new (c # cs) = c # py_replace old new cs"
  by simp

lemma py_replace_ascii_title:
  "py_replace (py ''<end_of_utterance>'') [] (ascii_title p s) = ascii_title p s"
proof (induction s arbitrary: p)
  case Nil
  then show ?case by (simp add: marker_unfold)
next
  case (Cons c cs)
  let ?m = "if p then ascii_tolower c else ascii_toupper c"
  let ?rest = "ascii_title (ascii_cased c) cs"
  have e: "ascii_title p (c # cs) = ?m # ?rest" by simp
  have "\<not> prefix (py ''<end_of_utterance>'') (ascii_title p (c # cs))"
    unfolding marker_unfold by (rule ascii_title_no_marker)
  then have np: "\<not> prefix (py ''<end_of_utterance>'') (?m # ?rest)"
    unfolding e .
  have ne: "py ''<end_of_utterance>'' \<noteq> []" by (simp add: marker_unfold)
  have "py_replace (py ''<end_of_utterance>'') [] (?m # ?rest)
      = ?m # py_replace (py ''<end_of_utterance>'') [] ?rest"
    using ne np by (rule py_replace_skip)
  also have "\<dots> = ?m # ?rest" by (simp only: Cons.IH)
  finally show ?case by (simp only: e)
qed

lemma set_py_replace: "set (py_replace old [] s) \<subseteq> set s"
proof (induction old "[]::nat list" s rule: py_replace.induct)
  case (1 old)
  then show ?case by simp
next
  case (2 old c cs)
  show ?case
  proof (cases "old = []")
    case True
    with 2 show ?thesis by auto
  next
    case False
    show ?thesis
    proof (cases "prefix old (c # cs)")
      case True
      with False 2(2) have "set (py_replace old [] (drop (length old) (c # cs))) \<subseteq> set (drop (length old) (c # cs))"
        by simp
      moreover have "set (drop (length old) (c # cs)) \<subseteq> set (c # cs)" by (rule set_drop_subset)
      ultimately show ?thesis using True False by auto
    next
      case np: False
      with False 2(3) show ?thesis by auto
    qed
  qed
qed

lemma set_py_strip: "set (py_strip chars s) \<subseteq> set s"
  unfolding py_strip_def by (auto dest!: set_dropWhileD)

lemma extract_answer_ascii_title:
  assumes "\<forall>c\<in>set y. c < 128" and "trimmed (py ''. '') y"
  shows "extract_answer u (PyStr (ascii_title False y)) = Inr (ascii_title False y)"
proof -
  let ?t = "ascii_title False y"
  have r: "py_replace (py ''<end_of_utterance>'') [] ?t = ?t" by (rule py_replace_ascii_title)
  have "trimmed (py ''. '') ?t" using assms(2) by (rule ascii_title_trimmed)
  then have s: "py_strip (py ''. '') ?t = ?t" by (rule py_strip_trimmed)
  have "\<forall>c\<in>set ?t. c < 128" using assms(1) by (rule ascii_title_below)
  then have "py_title u ?t = ascii_title False ?t" by (rule py_title_ascii)
  then have "py_title u ?t = ?t" by (simp only: ascii_title_idem)
  with r s show ?thesis by (simp add: extract_answer_def)
qed

section \<open>The answer normalizer\<close>

text \<open>
  C3. The normalizer maps \<open>" happy. "\<close> to \<open>"Happy"\<close> and \<open>"50+<end_of_utterance>"\<close> to
  \<open>"50+"\<close>, whatever the Unicode tables beyond ASCII are.
\<close>

theorem extract_answer_examples:
  "extract_answer u (PyStr (py '' happy. '')) = Inr (py ''Happy'')
   \<and> extract_answer u (PyStr (py ''50+<end_of_utterance>'')) = Inr (py ''50+'')"
  by (simp add: extract_answer_def py_def py_strip_def py_title_def to_title_full_def
      lower_ucs4_def is_cased_def ascii_isupper_def ascii_islower_def ascii_toupper_def
      ascii_tolower_def)

text \<open>
  C2. The normalizer removes the tag, strips and title-cases, but \<open>strip(". ")\<close> strips
  periods and spaces only: a trailing newline, which is whitespace, stays.
  \<open>"happy"\<close> followed by a newline is normalised to \<open>"Happy"\<close> followed by the newline and
  not to \<open>"Happy"\<close>.
\<close>

theorem extract_answer_keeps_newline:
  "extract_answer u (PyStr (py ''happy\<newline>'')) = Inr (py ''Happy\<newline>'')
   \<and> extract_answer u (PyStr (py ''happy\<newline>'')) \<noteq> Inr (py ''Happy'')"
  by (simp add: eval_defs)

lemma catalog_keys:
  "map fst (ads_age @ ads_gender @ ads_mood @ ads_style) =
     [py ''20-30'', py ''30-40'', py ''40-50'', py ''50+'', py ''Male'', py ''Female'',
      py ''Happy'', py ''Neutral'', py ''Sad'', py ''Sporty'', py ''Casual'', py ''Formal'',
      py ''Vintage'']"
  by (simp add: ads_age_def ads_gender_def ads_mood_def ads_style_def)

lemma catalog_keys_fixed:
  "list_all (\<lambda>k. extract_answer u (PyStr k) = Inr k)
     [py ''20-30'', py ''30-40'', py ''40-50'', py ''50+'', py ''Male'', py ''Female'',
      py ''Happy'', py ''Neutral'', py ''Sad'', py ''Sporty'', py ''Casual'', py ''Formal'',
      py ''Vintage'']"
  by (simp add: eval_defs)

text \<open>
  C4, as amended. Every key of the four catalogs is returned unchanged by the
  normalizer, and on every string of ASCII characters normalising twice gives the same
  as normalising once.
\<close>

theorem extract_answer_idempotent_ascii:
  "list_all (\<lambda>k. extract_answer u (PyStr k) = Inr k)
     (map fst (ads_age @ ads_gender @ ads_mood @ ads_style))
   \<and> (list_all (\<lambda>c. c < 128) s \<longrightarrow>
        (\<exists>t. extract_answer u (PyStr s) = Inr t \<and> extract_answer u (PyStr t) = Inr t))"
proof (intro conjI impI)
  show "list_all (\<lambda>k. extract_answer u (PyStr k) = Inr k)
     (map fst (ads_age @ ads_gender @ ads_mood @ ads_style))"
    unfolding catalog_keys by (rule catalog_keys_fixed)
next
  assume "list_all (\<lambda>c. c < 128) s"
  then have a: "\<forall>c\<in>set s. c < 128" by (simp add: list_all_iff)
  let ?y = "py_strip (py ''. '') (py_replace (py ''<end_of_utterance>'') [] s)"
  have "set ?y \<subseteq> set s" using set_py_strip set_py_replace by blast
  with a have ya: "\<forall>c\<in>set ?y. c < 128" by blast
  then have "py_title u ?y = ascii_title False ?y" by (rule py_title_ascii)
  then have e: "extract_answer u (PyStr s) = Inr (ascii_title False ?y)"
    by (simp add: extract_answer_def)
  have "trimmed (py ''. '') ?y" by (rule trimmed_py_strip)
  with ya have "extract_answer u (PyStr (ascii_title False ?y)) = Inr (ascii_title False ?y)"
    by (rule extract_answer_ascii_title)
  with e show "\<exists>t. extract_answer u (PyStr s) = Inr t \<and> extract_answer u (PyStr t) = Inr t"
    by blast
qed

theorem extract_answer_idempotent_ascii_witness:
  "list_all (\<lambda>c. c < 128) (py ''Sad.'')
   \<and> (\<exists>t. extract_answer ucd_excerpt (PyStr (py ''Sad.'')) = Inr t
          \<and> extract_answer ucd_excerpt (PyStr t) = Inr t)"
  using extract_answer_idempotent_ascii [of ucd_excerpt "py ''Sad.''"]
  by (simp add: py_def)

text \<open>
  C4 as stated, for every input string, fails. Beyond ASCII the normalizer is not
  idempotent: \<open>"ja"\<close> with U+01F0 for \<open>j\<close> is
  normalised to \<open>J\<close>, U+030C, \<open>a\<close>, and that string to \<open>J\<close>, U+030C, \<open>A\<close>, since the
  combining caron is not cased.
\<close>

theorem extract_answer_not_idempotent:
  "extract_answer ucd_excerpt (PyStr [0x1F0, 0x61]) = Inr [0x4A, 0x30C, 0x61]
   \<and> extract_answer ucd_excerpt (PyStr [0x4A, 0x30C, 0x61]) = Inr [0x4A, 0x30C, 0x41]
   \<and> extract_answer ucd_excerpt (PyStr [0x4A, 0x30C, 0x61])
       \<noteq> extract_answer ucd_excerpt (PyStr [0x1F0, 0x61])"
  by (simp add: eval_defs ucd_excerpt_def)

section \<open>The segmentation loop\<close>

lemma error_text_unfold:
  "py ''Error processing question: '' @ m = 69 # (py ''rror processing question: '' @ m)"
  by (simp add: py_def)

lemma py_strip_Cons_keep:
  assumes "c \<notin> set chars"
  shows "\<exists>zs. py_strip chars (c # ys) = c # zs"
proof -
  let ?P = "\<lambda>c. c \<in> set chars"
  have "dropWhile ?P (c # ys) = c # ys" using assms by simp
  moreover have "dropWhile ?P (rev ys @ c # []) = dropWhile ?P (rev ys) @ c # []"
    using assms by (rule dropWhile_append3)
  ultimately have "py_strip chars (c # ys) = c # rev (dropWhile ?P (rev ys))"
    by (simp add: py_strip_def)
  then show ?thesis by blast
qed

lemma py_title_Cons_ascii:
  "c < 128 \<Longrightarrow> \<exists>zs. py_title u (c # ys) = ascii_toupper c # zs"
  by (simp add: py_title_def to_title_full_def)

lemma extract_answer_error_text:
  "\<exists>zs. extract_answer u (PyStr (py ''Error processing question: '' @ m)) = Inr (69 # zs)"
proof -
  have ne: "py ''<end_of_utterance>'' \<noteq> []" by (simp add: marker_unfold)
  have np: "\<not> prefix (py ''<end_of_utterance>'') (69 # (py ''rror processing question: '' @ m))"
    by (simp add: marker_unfold)
  have r: "py_replace (py ''<end_of_utterance>'') [] (py ''Error processing question: '' @ m)
      = 69 # py_replace (py ''<end_of_utterance>'') [] (py ''rror processing question: '' @ m)"
    unfolding error_text_unfold using ne np by (rule py_replace_skip)
  have "(69::nat) \<notin> set (py ''. '')" by (simp add: py_def)
  then obtain ys where s: "py_strip (py ''. '')
      (69 # py_replace (py ''<end_of_utterance>'') [] (py ''rror processing question: '' @ m)) = 69 # ys"
    using py_strip_Cons_keep by blast
  obtain zs where t: "py_title u (69 # ys) = ascii_toupper 69 # zs"
    using py_title_Cons_ascii [of 69 u ys] by auto
  have "ascii_toupper 69 = 69" by (simp add: ascii_toupper_def ascii_islower_def)
  with r s t show ?thesis by (simp add: extract_answer_def)
qed

lemma ask_mlx_vlm_total: "\<exists>ev v. ask_mlx_vlm env img question = (ev, Inr v)"
  by (simp add: ask_mlx_vlm_def split: sum.splits)

lemma segment_Cons:
  "segment_label env img question = (ev, label) \<Longrightarrow>
     segment env img ((k, question) # qs) (tr, seg) = segment env img qs (tr @ ev, seg(k \<mapsto> label))"
  by simp

lemma segment_other:
  "key \<notin> fst ` set qs \<Longrightarrow> snd (segment env img qs (tr, seg)) key = seg key"
proof (induction qs arbitrary: tr seg)
  case Nil
  then show ?case by simp
next
  case (Cons q qs)
  obtain k question where q: "q = (k, question)" by (cases q)
  obtain ev label where l: "segment_label env img question = (ev, label)"
    by (cases "segment_label env img question")
  from Cons.prems q have nk: "key \<noteq> k" and nq: "key \<notin> fst ` set qs" by auto
  have "snd (segment env img qs (tr @ ev, seg(k \<mapsto> label))) key = (seg(k \<mapsto> label)) key"
    using nq by (rule Cons.IH)
  also have "\<dots> = seg key" using nk by simp
  finally show ?case unfolding q segment_Cons [OF l] .
qed

lemma segment_lookup:
  "distinct (map fst qs) \<Longrightarrow> (key, question) \<in> set qs \<Longrightarrow>
     snd (segment env img qs (tr, seg)) key = Some (snd (segment_label env img question))"
proof (induction qs arbitrary: tr seg)
  case Nil
  then show ?case by simp
next
  case (Cons q qs)
  obtain k qu where q: "q = (k, qu)" by (cases q)
  obtain ev label where l: "segment_label env img qu = (ev, label)"
    by (cases "segment_label env img qu")
  show ?case
  proof (cases "(key, question) = q")
    case True
    with q have kq: "k = key" "qu = question" by auto
    from Cons.prems(1) q kq have "key \<notin> fst ` set qs" by auto
    then have "snd (segment env img qs (tr @ ev, seg(k \<mapsto> label))) key
        = (seg(k \<mapsto> label)) key"
      by (rule segment_other)
    also have "\<dots> = Some (snd (segment_label env img question))" using kq l by simp
    finally show ?thesis unfolding q segment_Cons [OF l] .
  next
    case False
    with Cons.prems(2) have m: "(key, question) \<in> set qs" by auto
    from Cons.prems(1) have d: "distinct (map fst qs)" by simp
    have "snd (segment env img qs (tr @ ev, seg(k \<mapsto> label))) key
        = Some (snd (segment_label env img question))"
      using d m by (rule Cons.IH)
    then show ?thesis unfolding q segment_Cons [OF l] .
  qed
qed

lemma segment_dom:
  "dom (snd (segment env img qs (tr, seg))) = dom seg \<union> fst ` set qs"
proof (induction qs arbitrary: tr seg)
  case Nil
  then show ?case by simp
next
  case (Cons q qs)
  obtain k qu where q: "q = (k, qu)" by (cases q)
  obtain ev label where l: "segment_label env img qu = (ev, label)"
    by (cases "segment_label env img qu")
  have "dom (snd (segment env img qs (tr @ ev, seg(k \<mapsto> label))))
      = dom (seg(k \<mapsto> label)) \<union> fst ` set qs"
    by (rule Cons.IH)
  also have "\<dots> = dom seg \<union> fst ` set ((k, qu) # qs)" by auto
  finally show ?case unfolding q segment_Cons [OF l] .
qed

lemma questions_keys: "map fst questions = [py ''age'', py ''gender'', py ''mood'', py ''style'']"
  by (simp add: questions_def)

lemma questions_distinct: "distinct (map fst questions)"
  unfolding questions_keys by (simp add: py_eq_iff)

text \<open>
  Whatever the collaborators do, the segmentation result has exactly the four keys, and
  (by \<open>segment_lookup\<close>) the label under a key depends on that key's question alone.
\<close>

lemma segmentation_keys:
  "dom (snd (segment env img questions (tr, Map.empty)))
     = {py ''age'', py ''gender'', py ''mood'', py ''style''}"
  unfolding segment_dom by (simp add: questions_def)

text \<open>
  C10. \<open>ask_mlx_vlm\<close> always returns a value. When \<open>generate\<close> raises \<open>e\<close>, it returns the
  text \<open>"Error processing question: " + str(e)\<close>; the label of that question is the
  normalised form of this text, which is never \<open>"N/A"\<close>, and it is the label recorded
  under the question's key in the segmentation result.
\<close>

theorem generate_failure_not_na:
  "(\<exists>v. snd (ask_mlx_vlm env img question) = Inr v)
   \<and> (apply_chat_template env question = Inr prompt \<and> generate env prompt img = Inl e \<longrightarrow>
        snd (ask_mlx_vlm env img question)
          = Inr (PyStr (py ''Error processing question: '' @ message e))
        \<and> extract_answer (tables env) (PyStr (py ''Error processing question: '' @ message e))
            = Inr (snd (segment_label env img question))
        \<and> snd (segment_label env img question) \<noteq> py ''N/A''
        \<and> (distinct (map fst qs) \<and> (key, question) \<in> set qs \<longrightarrow>
             snd (segment env img qs (tr, seg)) key = Some (snd (segment_label env img question))))"
proof (intro conjI impI)
  show "\<exists>v. snd (ask_mlx_vlm env img question) = Inr v"
    using ask_mlx_vlm_total [of env img question] by auto
next
  assume a: "apply_chat_template env question = Inr prompt \<and> generate env prompt img = Inl e"
  then show r: "snd (ask_mlx_vlm env img question)
      = Inr (PyStr (py ''Error processing question: '' @ message e))"
    by (simp add: ask_mlx_vlm_def)
  obtain zs where z: "extract_answer (tables env)
      (PyStr (py ''Error processing question: '' @ message e)) = Inr (69 # zs)"
    using extract_answer_error_text by blast
  from a have "ask_mlx_vlm env img question = ([ChatTemplate question, Generate question],
      Inr (PyStr (py ''Error processing question: '' @ message e)))"
    by (simp add: ask_mlx_vlm_def)
  with z have l: "snd (segment_label env img question) = 69 # zs"
    by (simp add: segment_label_def)
  with z show "extract_answer (tables env) (PyStr (py ''Error processing question: '' @ message e))
            = Inr (snd (segment_label env img question))" by simp
  from l show "snd (segment_label env img question) \<noteq> py ''N/A''" by (simp add: py_def)
next
  assume "distinct (map fst qs) \<and> (key, question) \<in> set qs"
  then have "distinct (map fst qs)" and "(key, question) \<in> set qs" by simp_all
  then show "snd (segment env img qs (tr, seg)) key = Some (snd (segment_label env img question))"
    by (rule segment_lookup)
qed

lemma questions_differ:
  "question_age \<noteq> question_mood" "question_gender \<noteq> question_mood"
  "question_style \<noteq> question_mood" "question_gender \<noteq> question_age"
  "question_style \<noteq> question_age" "question_style \<noteq> question_gender"
  by (simp_all add: question_age_def question_gender_def question_mood_def question_style_def
      py_def)

lemma stub_labels:
  "segment_label (stub_env opener gen_mood_fails) img (question_age) =
     ([ChatTemplate (question_age), Generate (question_age)], py ''30-40'')"
  "segment_label (stub_env opener gen_mood_fails) img (question_gender) =
     ([ChatTemplate (question_gender), Generate (question_gender)], py ''Male'')"
  "segment_label (stub_env opener gen_mood_fails) img (question_mood) =
     ([ChatTemplate (question_mood), Generate (question_mood)],
      py ''Error Processing Question: Boom'')"
  "segment_label (stub_env opener gen_mood_fails) img (question_style) =
     ([ChatTemplate (question_style), Generate (question_style)], py ''Casual'')"
  by (simp_all add: segment_label_def ask_mlx_vlm_def stub_env_def gen_mood_fails_def
      questions_differ eval_defs)

lemma stub_segmentation:
  "snd (segment (stub_env opener gen_mood_fails) img questions (tr, seg)) (py ''age'')
     = Some (py ''30-40'')"
  "snd (segment (stub_env opener gen_mood_fails) img questions (tr, seg)) (py ''gender'')
     = Some (py ''Male'')"
  "snd (segment (stub_env opener gen_mood_fails) img questions (tr, seg)) (py ''mood'')
     = Some (py ''Error Processing Question: Boom'')"
  "snd (segment (stub_env opener gen_mood_fails) img questions (tr, seg)) (py ''style'')
     = Some (py ''Casual'')"
proof -
  have m: "(py ''age'', question_age) \<in> set questions"
      "(py ''gender'', question_gender) \<in> set questions"
      "(py ''mood'', question_mood) \<in> set questions"
      "(py ''style'', question_style) \<in> set questions"
    by (simp_all add: questions_def)
  note l = segment_lookup [OF questions_distinct, of _ _ "stub_env opener gen_mood_fails" img tr seg]
  show "snd (segment (stub_env opener gen_mood_fails) img questions (tr, seg)) (py ''age'')
     = Some (py ''30-40'')"
    by (simp only: l [OF m(1)] stub_labels snd_conv)
  show "snd (segment (stub_env opener gen_mood_fails) img questions (tr, seg)) (py ''gender'')
     = Some (py ''Male'')"
    by (simp only: l [OF m(2)] stub_labels snd_conv)
  show "snd (segment (stub_env opener gen_mood_fails) img questions (tr, seg)) (py ''mood'')
     = Some (py ''Error Processing Question: Boom'')"
    by (simp only: l [OF m(3)] stub_labels snd_conv)
  show "snd (segment (stub_env opener gen_mood_fails) img questions (tr, seg)) (py ''style'')
     = Some (py ''Casual'')"
    by (simp only: l [OF m(4)] stub_labels snd_conv)
qed

theorem generate_failure_not_na_witness:
  "apply_chat_template (stub_env Inr gen_mood_fails) (question_mood)
      = Inr (question_mood)
   \<and> generate (stub_env Inr gen_mood_fails) (question_mood) 0
      = Inl (Exception (py ''boom''))
   \<and> distinct (map fst questions)
   \<and> (py ''mood'', question_mood) \<in> set questions
   \<and> snd (ask_mlx_vlm (stub_env Inr gen_mood_fails) 0 (question_mood))
      = Inr (PyStr (py ''Error processing question: boom''))
   \<and> snd (segment (stub_env Inr gen_mood_fails) 0 questions ([], Map.empty)) (py ''mood'')
      = Some (py ''Error Processing Question: Boom'')"
proof -
  have a: "apply_chat_template (stub_env Inr gen_mood_fails) (question_mood)
      = Inr (question_mood)"
    by (simp add: stub_env_def)
  have g: "generate (stub_env Inr gen_mood_fails) (question_mood) 0
      = Inl (Exception (py ''boom''))"
    by (simp add: stub_env_def gen_mood_fails_def)
  have m: "(py ''mood'', question_mood) \<in> set questions"
    by (simp add: questions_def)
  have e: "py ''Error processing question: '' @ py ''boom'' = py ''Error processing question: boom''"
    by (simp add: py_def)
  from generate_failure_not_na [of "stub_env Inr gen_mood_fails" 0 "question_mood"
      "question_mood" "Exception (py ''boom'')" questions "py ''mood''" "[]" Map.empty]
    a g m questions_distinct
  show ?thesis by (simp add: stub_segmentation e)
qed

text \<open>
  C1. With a model that raises for the mood question and answers the three others, the
  segmentation result has the three labels and, for mood, the normalised error text
  \<open>"Error Processing Question: Boom"\<close>: the handler of \<open>ask_mlx_vlm\<close> has turned the
  failure into an answer, and \<open>"N/A"\<close> is not recorded.
\<close>

theorem generate_failure_recorded_as_text:
  "generate (stub_env Inr gen_mood_fails) question_mood 0 = Inl (Exception (py ''boom''))
   \<and> snd (segment (stub_env Inr gen_mood_fails) 0 questions ([], Map.empty)) (py ''mood'')
       = Some (py ''Error Processing Question: Boom'')
   \<and> snd (segment (stub_env Inr gen_mood_fails) 0 questions ([], Map.empty)) (py ''mood'')
       \<noteq> Some (py ''N/A'')
   \<and> snd (segment (stub_env Inr gen_mood_fails) 0 questions ([], Map.empty)) (py ''age'')
       = Some (py ''30-40'')
   \<and> snd (segment (stub_env Inr gen_mood_fails) 0 questions ([], Map.empty)) (py ''gender'')
       = Some (py ''Male'')
   \<and> snd (segment (stub_env Inr gen_mood_fails) 0 questions ([], Map.empty)) (py ''style'')
       = Some (py ''Casual'')"
proof -
  have g: "generate (stub_env Inr gen_mood_fails) question_mood 0
      = Inl (Exception (py ''boom''))"
    by (simp add: stub_env_def gen_mood_fails_def)
  have n: "py ''Error Processing Question: Boom'' \<noteq> py ''N/A''" by (simp add: py_eq_iff)
  from g n show ?thesis by (simp only: stub_segmentation option.inject simp_thms)
qed

section \<open>The ad selector\<close>

lemma random_choice_mem:
  "seq \<noteq> [] \<Longrightarrow> \<exists>a. random_choice r seq = Inr a \<and> a \<in> set seq"
  by (simp add: random_choice_def)

lemma ads_age_nonempty: "list_all (\<lambda>kv. snd kv \<noteq> []) ads_age"
  by (simp add: ads_age_def)

lemma ads_gender_nonempty: "list_all (\<lambda>kv. snd kv \<noteq> []) ads_gender"
  by (simp add: ads_gender_def)

lemma ads_mood_nonempty: "list_all (\<lambda>kv. snd kv \<noteq> []) ads_mood"
  by (simp add: ads_mood_def)

lemma ads_style_nonempty: "list_all (\<lambda>kv. snd kv \<noteq> []) ads_style"
  by (simp add: ads_style_def)

lemma dict_get_opt_nonempty:
  assumes "list_all (\<lambda>kv. snd kv \<noteq> []) catalog"
  shows "dict_get_opt (map_of catalog) label [fb] \<noteq> []"
proof -
  have "v \<noteq> []" if "map_of catalog k = Some v" for k v
  proof -
    from that have "(k, v) \<in> set catalog" by (rule map_of_SomeD)
    with assms show ?thesis by (auto simp: list_all_iff)
  qed
  then show ?thesis
    by (auto simp: dict_get_opt_def dict_get_def split: option.splits)
qed

lemma choose_ad_mem:
  assumes "list_all (\<lambda>kv. snd kv \<noteq> []) catalog"
  shows "\<exists>a. choose_ad r catalog label fb = Inr a
           \<and> a \<in> set (dict_get_opt (map_of catalog) label [fb])"
  unfolding choose_ad_def
  using dict_get_opt_nonempty [OF assms] by (rule random_choice_mem)

lemma selected_ads_result:
  "\<exists>a g m s.
     selected_ads raw seg =
       ([Choice (py ''age''), Choice (py ''gender''), Choice (py ''mood''), Choice (py ''style'')],
        Inr \<lparr>sel_age = a, sel_gender = g, sel_mood = m, sel_style = s\<rparr>)
     \<and> a \<in> set (dict_get_opt (map_of ads_age) (seg (py ''age''))
           [Ad (py ''Default Age Ad'') (py ''Personalized recommendations for you'')
              (py ''$0.00'') 5])
     \<and> g \<in> set (dict_get_opt (map_of ads_gender) (seg (py ''gender''))
           [Ad (py ''Default Gender Ad'') (py ''Curated selections for you'') (py ''$0.00'') 5])
     \<and> m \<in> set (dict_get_opt (map_of ads_mood) (seg (py ''mood''))
           [Ad (py ''Default Mood Ad'') (py ''Special picks for your mood'') (py ''$0.00'') 5])
     \<and> s \<in> set (dict_get_opt (map_of ads_style) (seg (py ''style''))
           [Ad (py ''Default Style Ad'') (py ''Trending items for your style'')
              (py ''$0.00'') 5])"
proof -
  obtain a where a: "choose_ad (raw 0) ads_age (seg (py ''age''))
        (Ad (py ''Default Age Ad'') (py ''Personalized recommendations for you'')
           (py ''$0.00'') 5) = Inr a"
      "a \<in> set (dict_get_opt (map_of ads_age) (seg (py ''age''))
           [Ad (py ''Default Age Ad'') (py ''Personalized recommendations for you'')
              (py ''$0.00'') 5])"
    using choose_ad_mem [OF ads_age_nonempty] by blast
  obtain g where g: "choose_ad (raw 1) ads_gender (seg (py ''gender''))
        (Ad (py ''Default Gender Ad'') (py ''Curated selections for you'') (py ''$0.00'') 5)
        = Inr g"
      "g \<in> set (dict_get_opt (map_of ads_gender) (seg (py ''gender''))
           [Ad (py ''Default Gender Ad'') (py ''Curated selections for you'') (py ''$0.00'') 5])"
    using choose_ad_mem [OF ads_gender_nonempty] by blast
  obtain m where m: "choose_ad (raw 2) ads_mood (seg (py ''mood''))
        (Ad (py ''Default Mood Ad'') (py ''Special picks for your mood'') (py ''$0.00'') 5)
        = Inr m"
      "m \<in> set (dict_get_opt (map_of ads_mood) (seg (py ''mood''))
           [Ad (py ''Default Mood Ad'') (py ''Special picks for your mood'') (py ''$0.00'') 5])"
    using choose_ad_mem [OF ads_mood_nonempty] by blast
  obtain s where s: "choose_ad (raw 3) ads_style (seg (py ''style''))
        (Ad (py ''Default Style Ad'') (py ''Trending items for your style'') (py ''$0.00'') 5)
        = Inr s"
      "s \<in> set (dict_get_opt (map_of ads_style) (seg (py ''style''))
           [Ad (py ''Default Style Ad'') (py ''Trending items for your style'')
              (py ''$0.00'') 5])"
    using choose_ad_mem [OF ads_style_nonempty] by blast
  have "selected_ads raw seg =
       ([Choice (py ''age''), Choice (py ''gender''), Choice (py ''mood''), Choice (py ''style'')],
        Inr \<lparr>sel_age = a, sel_gender = g, sel_mood = m, sel_style = s\<rparr>)"
    by (simp only: selected_ads_def a(1) g(1) m(1) s(1) sum.case)
  with a(2) g(2) m(2) s(2) show ?thesis by blast
qed

lemma dict_get_opt_unrecognized:
  assumes "unrecognized catalog label"
  shows "dict_get_opt (map_of catalog) label dflt = dflt"
proof (cases label)
  case None
  then show ?thesis by (simp add: dict_get_opt_def)
next
  case (Some l)
  with assms have "l \<notin> fst ` set catalog" by (simp add: unrecognized_def)
  then have "map_of catalog l = None" by (simp add: map_of_eq_None_iff)
  with Some show ?thesis by (simp add: dict_get_opt_def dict_get_def)
qed

lemma dict_get_opt_Some:
  "map_of catalog l = Some ads \<Longrightarrow> dict_get_opt (map_of catalog) (Some l) dflt = ads"
  by (simp add: dict_get_opt_def dict_get_def)

text \<open>
  C5. The selection never raises, and for each category whose label is missing or is
  not a key of the category's catalog the selected ad is the fallback ad of the
  category: title \<open>"Default <Category> Ad"\<close>, price \<open>"$0.00"\<close>, rating \<open>5.0\<close>.
\<close>

theorem selected_ads_fallback:
  "\<exists>sel. snd (selected_ads raw seg) = Inr sel
     \<and> (unrecognized ads_age (seg (py ''age'')) \<longrightarrow>
          sel_age sel = Ad (py ''Default Age Ad'') (py ''Personalized recommendations for you'')
                          (py ''$0.00'') 5)
     \<and> (unrecognized ads_gender (seg (py ''gender'')) \<longrightarrow>
          sel_gender sel = Ad (py ''Default Gender Ad'') (py ''Curated selections for you'')
                             (py ''$0.00'') 5)
     \<and> (unrecognized ads_mood (seg (py ''mood'')) \<longrightarrow>
          sel_mood sel = Ad (py ''Default Mood Ad'') (py ''Special picks for your mood'')
                           (py ''$0.00'') 5)
     \<and> (unrecognized ads_style (seg (py ''style'')) \<longrightarrow>
          sel_style sel = Ad (py ''Default Style Ad'') (py ''Trending items for your style'')
                            (py ''$0.00'') 5)"
proof -
  obtain a g m s where r: "selected_ads raw seg =
       ([Choice (py ''age''), Choice (py ''gender''), Choice (py ''mood''), Choice (py ''style'')],
        Inr \<lparr>sel_age = a, sel_gender = g, sel_mood = m, sel_style = s\<rparr>)"
    and a: "a \<in> set (dict_get_opt (map_of ads_age) (seg (py ''age''))
           [Ad (py ''Default Age Ad'') (py ''Personalized recommendations for you'')
              (py ''$0.00'') 5])"
    and g: "g \<in> set (dict_get_opt (map_of ads_gender) (seg (py ''gender''))
           [Ad (py ''Default Gender Ad'') (py ''Curated selections for you'') (py ''$0.00'') 5])"
    and m: "m \<in> set (dict_get_opt (map_of ads_mood) (seg (py ''mood''))
           [Ad (py ''Default Mood Ad'') (py ''Special picks for your mood'') (py ''$0.00'') 5])"
    and s: "s \<in> set (dict_get_opt (map_of ads_style) (seg (py ''style''))
           [Ad (py ''Default Style Ad'') (py ''Trending items for your style'')
              (py ''$0.00'') 5])"
    using selected_ads_result [of raw seg] by blast
  show ?thesis
  proof (intro exI [of _ "\<lparr>sel_age = a, sel_gender = g, sel_mood = m, sel_style = s\<rparr>"]
      conjI impI)
    show "snd (selected_ads raw seg)
        = Inr \<lparr>sel_age = a, sel_gender = g, sel_mood = m, sel_style = s\<rparr>"
      by (simp add: r)
  next
    assume "unrecognized ads_age (seg (py ''age''))"
    with a show "sel_age \<lparr>sel_age = a, sel_gender = g, sel_mood = m, sel_style = s\<rparr>
        = Ad (py ''Default Age Ad'') (py ''Personalized recommendations for you'')
            (py ''$0.00'') 5"
      by (simp add: dict_get_opt_unrecognized)
  next
    assume "unrecognized ads_gender (seg (py ''gender''))"
    with g show "sel_gender \<lparr>sel_age = a, sel_gender = g, sel_mood = m, sel_style = s\<rparr>
        = Ad (py ''Default Gender Ad'') (py ''Curated selections for you'') (py ''$0.00'') 5"
      by (simp add: dict_get_opt_unrecognized)
  next
    assume "unrecognized ads_mood (seg (py ''mood''))"
    with m show "sel_mood \<lparr>sel_age = a, sel_gender = g, sel_mood = m, sel_style = s\<rparr>
        = Ad (py ''Default Mood Ad'') (py ''Special picks for your mood'') (py ''$0.00'') 5"
      by (simp add: dict_get_opt_unrecognized)
  next
    assume "unrecognized ads_style (seg (py ''style''))"
    with s show "sel_style \<lparr>sel_age = a, sel_gender = g, sel_mood = m, sel_style = s\<rparr>
        = Ad (py ''Default Style Ad'') (py ''Trending items for your style'') (py ''$0.00'') 5"
      by (simp add: dict_get_opt_unrecognized)
  qed
qed

theorem selected_ads_fallback_witness:
  "unrecognized ads_age ([py ''mood'' \<mapsto> py ''N/A''] (py ''age''))
   \<and> unrecognized ads_gender ([py ''mood'' \<mapsto> py ''N/A''] (py ''gender''))
   \<and> unrecognized ads_mood ([py ''mood'' \<mapsto> py ''N/A''] (py ''mood''))
   \<and> unrecognized ads_style ([py ''mood'' \<mapsto> py ''N/A''] (py ''style''))
   \<and> (\<exists>sel. snd (selected_ads id [py ''mood'' \<mapsto> py ''N/A'']) = Inr sel
         \<and> title (sel_age sel) = py ''Default Age Ad''
         \<and> title (sel_gender sel) = py ''Default Gender Ad''
         \<and> title (sel_mood sel) = py ''Default Mood Ad''
         \<and> title (sel_style sel) = py ''Default Style Ad''
         \<and> price (sel_mood sel) = py ''$0.00'' \<and> rating (sel_mood sel) = 5)"
proof -
  let ?seg = "[py ''mood'' \<mapsto> py ''N/A'']"
  have u: "unrecognized ads_age (?seg (py ''age''))"
      "unrecognized ads_gender (?seg (py ''gender''))"
      "unrecognized ads_mood (?seg (py ''mood''))"
      "unrecognized ads_style (?seg (py ''style''))"
    by (simp_all add: unrecognized_def py_eq_iff ads_mood_def)
  with selected_ads_fallback [of id ?seg] obtain sel where
    "snd (selected_ads id ?seg) = Inr sel"
    "sel_age sel = Ad (py ''Default Age Ad'') (py ''Personalized recommendations for you'')
                          (py ''$0.00'') 5"
    "sel_gender sel = Ad (py ''Default Gender Ad'') (py ''Curated selections for you'')
                             (py ''$0.00'') 5"
    "sel_mood sel = Ad (py ''Default Mood Ad'') (py ''Special picks for your mood'')
                           (py ''$0.00'') 5"
    "sel_style sel = Ad (py ''Default Style Ad'') (py ''Trending items for your style'')
                            (py ''$0.00'') 5"
    by blast
  then have "snd (selected_ads id ?seg) = Inr sel
         \<and> title (sel_age sel) = py ''Default Age Ad''
         \<and> title (sel_gender sel) = py ''Default Gender Ad''
         \<and> title (sel_mood sel) = py ''Default Mood Ad''
         \<and> title (sel_style sel) = py ''Default Style Ad''
         \<and> price (sel_mood sel) = py ''$0.00'' \<and> rating (sel_mood sel) = 5"
    by (simp add: Ad_def)
  then have "\<exists>sel. snd (selected_ads id ?seg) = Inr sel
         \<and> title (sel_age sel) = py ''Default Age Ad''
         \<and> title (sel_gender sel) = py ''Default Gender Ad''
         \<and> title (sel_mood sel) = py ''Default Mood Ad''
         \<and> title (sel_style sel) = py ''Default Style Ad''
         \<and> price (sel_mood sel) = py ''$0.00'' \<and> rating (sel_mood sel) = 5"
    by (rule exI)
  with u show ?thesis by (intro conjI)
qed

text \<open>
  C6. For each category whose label is a key of the category's catalog, the selected ad
  is a member of the catalog's list for that label; for the mood label \<open>"Happy"\<close> it is
  one of the three ads listed under \<open>"Happy"\<close>.
\<close>

theorem selected_ads_from_catalog:
  "\<exists>sel. snd (selected_ads raw seg) = Inr sel
     \<and> (\<forall>l ads. seg (py ''age'') = Some l \<and> map_of ads_age l = Some ads
           \<longrightarrow> sel_age sel \<in> set ads)
     \<and> (\<forall>l ads. seg (py ''gender'') = Some l \<and> map_of ads_gender l = Some ads
           \<longrightarrow> sel_gender sel \<in> set ads)
     \<and> (\<forall>l ads. seg (py ''mood'') = Some l \<and> map_of ads_mood l = Some ads
           \<longrightarrow> sel_mood sel \<in> set ads)
     \<and> (\<forall>l ads. seg (py ''style'') = Some l \<and> map_of ads_style l = Some ads
           \<longrightarrow> sel_style sel \<in> set ads)
     \<and> (seg (py ''mood'') = Some (py ''Happy'') \<longrightarrow>
          sel_mood sel \<in>
            {Ad (py ''Party Planning Bundle'')
               (py ''Everything you need for your next celebration'') (py ''$199.99'') (47 / 10),
             Ad (py ''Adventure Gear Set'')
               (py ''Premium outdoor equipment for your next expedition'') (py ''$399.99'')
               (48 / 10),
             Ad (py ''Entertainment Package Plus'')
               (py ''Stream, game, and enjoy with our premium entertainment system'')
               (py ''$599.99'') (46 / 10)})"
proof -
  obtain a g m s where r: "selected_ads raw seg =
       ([Choice (py ''age''), Choice (py ''gender''), Choice (py ''mood''), Choice (py ''style'')],
        Inr \<lparr>sel_age = a, sel_gender = g, sel_mood = m, sel_style = s\<rparr>)"
    and a: "a \<in> set (dict_get_opt (map_of ads_age) (seg (py ''age''))
           [Ad (py ''Default Age Ad'') (py ''Personalized recommendations for you'')
              (py ''$0.00'') 5])"
    and g: "g \<in> set (dict_get_opt (map_of ads_gender) (seg (py ''gender''))
           [Ad (py ''Default Gender Ad'') (py ''Curated selections for you'') (py ''$0.00'') 5])"
    and m: "m \<in> set (dict_get_opt (map_of ads_mood) (seg (py ''mood''))
           [Ad (py ''Default Mood Ad'') (py ''Special picks for your mood'') (py ''$0.00'') 5])"
    and s: "s \<in> set (dict_get_opt (map_of ads_style) (seg (py ''style''))
           [Ad (py ''Default Style Ad'') (py ''Trending items for your style'')
              (py ''$0.00'') 5])"
    using selected_ads_result [of raw seg] by blast
  have happy: "map_of ads_mood (py ''Happy'') =
      Some [Ad (py ''Party Planning Bundle'')
               (py ''Everything you need for your next celebration'') (py ''$199.99'') (47 / 10),
            Ad (py ''Adventure Gear Set'')
               (py ''Premium outdoor equipment for your next expedition'') (py ''$399.99'')
               (48 / 10),
            Ad (py ''Entertainment Package Plus'')
               (py ''Stream, game, and enjoy with our premium entertainment system'')
               (py ''$599.99'') (46 / 10)]"
    by (simp add: ads_mood_def)
  show ?thesis
  proof (intro exI [of _ "\<lparr>sel_age = a, sel_gender = g, sel_mood = m, sel_style = s\<rparr>"]
      conjI impI allI)
    show "snd (selected_ads raw seg)
        = Inr \<lparr>sel_age = a, sel_gender = g, sel_mood = m, sel_style = s\<rparr>"
      by (simp add: r)
  next
    fix l ads assume "seg (py ''age'') = Some l \<and> map_of ads_age l = Some ads"
    with a show "sel_age \<lparr>sel_age = a, sel_gender = g, sel_mood = m, sel_style = s\<rparr> \<in> set ads"
      by (simp add: dict_get_opt_Some)
  next
    fix l ads assume "seg (py ''gender'') = Some l \<and> map_of ads_gender l = Some ads"
    with g show "sel_gender \<lparr>sel_age = a, sel_gender = g, sel_mood = m, sel_style = s\<rparr> \<in> set ads"
      by (simp add: dict_get_opt_Some)
  next
    fix l ads assume "seg (py ''mood'') = Some l \<and> map_of ads_mood l = Some ads"
    with m show "sel_mood \<lparr>sel_age = a, sel_gender = g, sel_mood = m, sel_style = s\<rparr> \<in> set ads"
      by (simp add: dict_get_opt_Some)
  next
    fix l ads assume "seg (py ''style'') = Some l \<and> map_of ads_style l = Some ads"
    with s show "sel_style \<lparr>sel_age = a, sel_gender = g, sel_mood = m, sel_style = s\<rparr> \<in> set ads"
      by (simp add: dict_get_opt_Some)
  next
    assume "seg (py ''mood'') = Some (py ''Happy'')"
    with m happy show "sel_mood \<lparr>sel_age = a, sel_gender = g, sel_mood = m, sel_style = s\<rparr> \<in>
            {Ad (py ''Party Planning Bundle'')
               (py ''Everything you need for your next celebration'') (py ''$199.99'') (47 / 10),
             Ad (py ''Adventure Gear Set'')
               (py ''Premium outdoor equipment for your next expedition'') (py ''$399.99'')
               (48 / 10),
             Ad (py ''Entertainment Package Plus'')
               (py ''Stream, game, and enjoy with our premium entertainment system'')
               (py ''$599.99'') (46 / 10)}"
      by (simp add: dict_get_opt_Some)
  qed
qed

theorem selected_ads_from_catalog_witness:
  "[py ''mood'' \<mapsto> py ''Happy''] (py ''mood'') = Some (py ''Happy'')
   \<and> map_of ads_mood (py ''Happy'') =
      Some [Ad (py ''Party Planning Bundle'')
               (py ''Everything you need for your next celebration'') (py ''$199.99'') (47 / 10),
            Ad (py ''Adventure Gear Set'')
               (py ''Premium outdoor equipment for your next expedition'') (py ''$399.99'')
               (48 / 10),
            Ad (py ''Entertainment Package Plus'')
               (py ''Stream, game, and enjoy with our premium entertainment system'')
               (py ''$599.99'') (46 / 10)]
   \<and> (\<exists>sel. snd (selected_ads id [py ''mood'' \<mapsto> py ''Happy'']) = Inr sel
         \<and> sel_mood sel \<in> set
            [Ad (py ''Party Planning Bundle'')
               (py ''Everything you need for your next celebration'') (py ''$199.99'') (47 / 10),
             Ad (py ''Adventure Gear Set'')
               (py ''Premium outdoor equipment for your next expedition'') (py ''$399.99'')
               (48 / 10),
             Ad (py ''Entertainment Package Plus'')
               (py ''Stream, game, and enjoy with our premium entertainment system'')
               (py ''$599.99'') (46 / 10)])"
proof -
  let ?seg = "[py ''mood'' \<mapsto> py ''Happy'']"
  let ?ads = "[Ad (py ''Party Planning Bundle'')
               (py ''Everything you need for your next celebration'') (py ''$199.99'') (47 / 10),
             Ad (py ''Adventure Gear Set'')
               (py ''Premium outdoor equipment for your next expedition'') (py ''$399.99'')
               (48 / 10),
             Ad (py ''Entertainment Package Plus'')
               (py ''Stream, game, and enjoy with our premium entertainment system'')
               (py ''$599.99'') (46 / 10)]"
  have s: "?seg (py ''mood'') = Some (py ''Happy'')" by simp
  have h: "map_of ads_mood (py ''Happy'') = Some ?ads" by (simp add: ads_mood_def)
  from selected_ads_from_catalog [of id ?seg] obtain sel where
    r: "snd (selected_ads id ?seg) = Inr sel"
    and c: "\<forall>l ads. ?seg (py ''mood'') = Some l \<and> map_of ads_mood l = Some ads
           \<longrightarrow> sel_mood sel \<in> set ads"
    by blast
  from c s h have "sel_mood sel \<in> set ?ads" by blast
  with r have "\<exists>sel. snd (selected_ads id ?seg) = Inr sel \<and> sel_mood sel \<in> set ?ads"
    by blast
  with s h show ?thesis by (intro conjI)
qed

section \<open>Rendering\<close>

lemma py_repeat_single: "py_repeat [x] n = replicate (nat n) x"
proof -
  have "concat (replicate k [x]) = replicate k x" for k by (induction k) simp_all
  then show ?thesis by (simp add: py_repeat_def)
qed

lemma sublist_prepend: "sublist m ys \<Longrightarrow> sublist m (a @ ys)"
proof -
  assume "sublist m ys"
  then obtain ps ss where "ys = ps @ m @ ss" unfolding sublist_def by blast
  then have "a @ ys = (a @ ps) @ m @ ss" by simp
  then show ?thesis unfolding sublist_def by blast
qed

lemma sublist_here: "sublist (f @ b @ r @ p) (f @ b @ r @ p @ post)"
proof -
  have "f @ b @ r @ p @ post = [] @ (f @ b @ r @ p) @ post" by simp
  then show ?thesis unfolding sublist_def by blast
qed

lemma close_paren_split: "py '')</span>\<newline>'' = py '')'' @ py ''</span>\<newline>''"
  by (simp add: py_def)

text \<open>
  C7. For a rating that is not negative, \<open>format_stars\<close> gives as many filled stars as
  the integer part of the rating, followed by one half glyph exactly when the
  fractional part is at least one half; for a negative rating it gives the empty string.
  The ad card contains the stars followed by the formatted rating in parentheses.
\<close>

theorem format_stars_glyphs:
  "(0 \<le> r \<longrightarrow>
      format_stars r = replicate (nat \<lfloor>r\<rfloor>) 0x2605 @ (if 1 / 2 \<le> frac r then [0xBD] else []))
   \<and> (r < 0 \<longrightarrow> format_stars r = [])
   \<and> sublist (format_stars (rating ad) @ py '' ('' @ repr (rating ad) @ py '')'')
        (format_ad_html repr ad)"
proof (intro conjI impI)
  assume "0 \<le> r"
  then show "format_stars r
      = replicate (nat \<lfloor>r\<rfloor>) 0x2605 @ (if 1 / 2 \<le> frac r then [0xBD] else [])"
    by (simp add: format_stars_def py_int_def py_repeat_single frac_def Let_def)
next
  assume n: "r < 0"
  then have "\<lfloor>- r\<rfloor> \<ge> 0" by simp
  then have i: "py_int r \<le> 0" using n by (simp add: py_int_def)
  have "- r < of_int \<lfloor>- r\<rfloor> + 1" by linarith
  then have "r - of_int (py_int r) \<le> 0" using n
    by (simp add: py_int_def) linarith
  then have "\<not> (1 / 2 \<le> r - of_int (py_int r))" by linarith
  with i show "format_stars r = []"
    by (simp add: format_stars_def py_repeat_single Let_def)
next
  show "sublist (format_stars (rating ad) @ py '' ('' @ repr (rating ad) @ py '')'')
        (format_ad_html repr ad)"
    unfolding format_ad_html_def close_paren_split append_assoc
    by (rule sublist_here | rule sublist_prepend)+
qed

lemma floor_48_10: "\<lfloor>48 / 10 :: rat\<rfloor> = 4"
  by (simp add: floor_eq_iff)

theorem format_stars_glyphs_witness:
  "(0::rat) \<le> 48 / 10
   \<and> format_stars (48 / 10) = [0x2605, 0x2605, 0x2605, 0x2605, 0xBD]
   \<and> (- 3 / 2 :: rat) < 0 \<and> format_stars (- 3 / 2) = []"
  using format_stars_glyphs [of "48 / 10"] format_stars_glyphs [of "- 3 / 2"] floor_48_10
  by (simp add: frac_def numeral_eq_Suc)

section \<open>The endpoint\<close>

text \<open>
  C8. A request without the field \<open>image\<close> is answered with status 400 and the body
  \<open>{"error": "No image uploaded"}\<close>, and no collaborator is called: no image is opened,
  the model is not invoked and no ad is chosen.
\<close>

theorem missing_image_400:
  "files req (py ''image'') = None \<longrightarrow>
     process_image env req = ([], Inr (400, ErrorBody (py ''No image uploaded'')))"
  by (simp add: process_image_def)

theorem missing_image_400_witness:
  "files \<lparr>files = Map.empty\<rparr> (py ''image'') = (None :: nat option)
   \<and> process_image (stub_env Inr gen_mood_fails) \<lparr>files = Map.empty\<rparr>
       = ([], Inr (400, ErrorBody (py ''No image uploaded'')))"
  using missing_image_400 [of "\<lparr>files = Map.empty\<rparr>" "stub_env Inr gen_mood_fails"]
  by simp

text \<open>
  C9, as amended. When the image library raises \<open>e\<close> on the uploaded file, the request
  is answered with status 500 and the body \<open>{"error": str(e)}\<close>, and the only call made
  is the one that opens the image: the model is not invoked and no ad is chosen.
\<close>

theorem decode_failure_500:
  "files req (py ''image'') = Some f \<and> image_open env f = Inl e \<longrightarrow>
     process_image env req = ([ImageOpen], Inr (500, ErrorBody (message e)))"
  by (simp add: process_image_def)

theorem decode_failure_500_witness:
  "files \<lparr>files = [py ''image'' \<mapsto> (7::nat)]\<rparr> (py ''image'') = Some 7
   \<and> image_open (stub_env (\<lambda>f. Inl (Exception (py ''cannot identify image file''))) gen_mood_fails) 7
       = Inl (Exception (py ''cannot identify image file''))
   \<and> process_image (stub_env (\<lambda>f. Inl (Exception (py ''cannot identify image file''))) gen_mood_fails)
        \<lparr>files = [py ''image'' \<mapsto> 7]\<rparr>
       = ([ImageOpen], Inr (500, ErrorBody (py ''cannot identify image file'')))"
  using decode_failure_500 [of "\<lparr>files = [py ''image'' \<mapsto> (7::nat)]\<rparr>" 7
      "stub_env (\<lambda>f. Inl (Exception (py ''cannot identify image file''))) gen_mood_fails"
      "Exception (py ''cannot identify image file'')"]
  by (simp add: stub_env_def)

text \<open>
  C9 as stated, with a non-empty message, fails. The text of the error is the
  exception's own: an exception without text gives the body \<open>{"error": ""}\<close>.
\<close>

theorem decode_failure_empty_message:
  "image_open (stub_env (\<lambda>f. Inl (Exception [])) gen_mood_fails) 7 = Inl (Exception [])
   \<and> process_image (stub_env (\<lambda>f. Inl (Exception [])) gen_mood_fails)
        \<lparr>files = [py ''image'' \<mapsto> 7]\<rparr>
       = ([ImageOpen], Inr (500, ErrorBody []))"
  by (simp add: process_image_def stub_env_def)

text \<open>
  Once the image is opened the request is answered with status 200, whatever the model
  and the random generator do.
\<close>

lemma process_image_ok:
  assumes "files req (py ''image'') = Some f" and "image_open env f = Inr img"
  shows "\<exists>tr html. process_image env req = (tr, Inr (200, HtmlBody html))"
proof -
  obtain tr seg where s: "segment env img questions ([ImageOpen], Map.empty) = (tr, seg)"
    by (cases "segment env img questions ([ImageOpen], Map.empty)")
  obtain ev sel where "selected_ads (random_raw env) seg = (ev, Inr sel)"
    using selected_ads_result [of "random_raw env" seg] by blast
  with assms s show ?thesis by (simp add: process_image_def)
qed

end
